theory Spec2Isabelle
  imports Complex_Main "HOL-Library.Word"
begin

section \<open>The test-audio generator \<^verbatim>\<open>examples/minimal/create_48k_test_audio.py\<close>\<close>

text \<open>
  The script has one function, \<^verbatim>\<open>create_48k_test_audio()\<close>, which takes no argument:
  it binds four local constants (sample rate, duration, frequency, amplitude), builds a
  list of samples, serialises a WAV container into a bytearray and writes it to the
  fixed path \<^verbatim>\<open>debug-audio/test-static.wav\<close>.

  The embedding keeps the body of the function as it is written and turns the four local
  constants into parameters (\<open>create_48k_test_audio_with\<close>), so that statements about
  other parameter values can be made; \<open>create_48k_test_audio\<close> is that function at the
  values of the source.

  Conventions of the embedding:
  \<^item> Python \<^verbatim>\<open>int\<close> is \<open>int\<close>; a byte is an \<open>8 word\<close>.
  \<^item> Python \<^verbatim>\<open>float\<close> is modelled twice. The generator \<open>generate_samples\<close> computes with
    real numbers and the real sine: it is used for the statements that rounding cannot
    change (bounds that hold by monotone rounding, the exact product \<open>48000 * 1.0\<close>, the
    header fields). The generator \<open>generate_samples_binary64\<close> rounds every operation as
    IEEE-754 binary64 does and takes the platform's \<^verbatim>\<open>math.sin\<close> as a parameter: it is
    used for the statements about the number of samples and the value of a sample.
  \<^item> every exception the body can raise is a constructor of \<open>error\<close> and a branch of
    the model; running out of memory is not modelled.
  \<^item> the file system is an explicit state. The function is given twice here too: over a
    small model of the file system, and over an arbitrary environment whose \<^verbatim>\<open>open\<close>,
    write and prints are parameters (\<open>create_48k_test_audio_env\<close>).
\<close>

subsection \<open>Errors, bytes and \<^verbatim>\<open>struct.pack\<close>\<close>

datatype error =
    ZeroDivisionError | OverflowError | ValueError | StructError
  | FileNotFoundError | NotADirectoryError | IsADirectoryError | PermissionError

type_synonym byte = "8 word"

text \<open>A bytes literal such as \<^verbatim>\<open>b'RIFF'\<close>: the ASCII codes of its characters.\<close>

definition bytes_of :: "string \<Rightarrow> byte list" where
  "bytes_of s = map (\<lambda>c. of_nat (of_char c)) s"

text \<open>
  The \<open>n\<close> low-order bytes of an integer, least significant first (two's complement for a
  negative one), as the little-endian formats of \<^verbatim>\<open>struct.pack\<close> lay them out.
\<close>

fun le_bytes :: "nat \<Rightarrow> int \<Rightarrow> byte list" where
  "le_bytes 0 x = []"
| "le_bytes (Suc n) x = word_of_int x # le_bytes n (x div 256)"

text \<open>
  \<^verbatim>\<open>struct.pack('<I', x)\<close>, \<^verbatim>\<open>struct.pack('<H', x)\<close> and \<^verbatim>\<open>struct.pack('<h', x)\<close>:
  each raises \<^verbatim>\<open>struct.error\<close> when the argument is outside the range of the format.
\<close>

definition pack_I :: "int \<Rightarrow> error + byte list" where
  "pack_I x = (if 0 \<le> x \<and> x \<le> 4294967295 then Inr (le_bytes 4 x) else Inl StructError)"

definition pack_H :: "int \<Rightarrow> error + byte list" where
  "pack_H x = (if 0 \<le> x \<and> x \<le> 65535 then Inr (le_bytes 2 x) else Inl StructError)"

definition pack_h :: "int \<Rightarrow> error + byte list" where
  "pack_h x = (if - 32768 \<le> x \<and> x \<le> 32767 then Inr (le_bytes 2 x) else Inl StructError)"

text \<open>
  \<^verbatim>\<open>wav_data.extend(...)\<close>: the bytearray grows by the packed bytes; an exception raised
  before or while the argument is evaluated leaves the function.
\<close>

definition bytearray_extend :: "error + byte list \<Rightarrow> error + byte list \<Rightarrow> error + byte list" where
  "bytearray_extend wav_data packed =
     (case wav_data of
        Inl e \<Rightarrow> Inl e
      | Inr w \<Rightarrow> (case packed of Inl e \<Rightarrow> Inl e | Inr b \<Rightarrow> Inr (w @ b)))"

subsection \<open>Reading a file back\<close>

text \<open>
  The value of a little-endian unsigned field, and its reading as a signed 16-bit value.
  These are not part of the script: they are how a reader of the file decodes a field.
\<close>

fun le_decode :: "byte list \<Rightarrow> int" where
  "le_decode [] = 0"
| "le_decode (b # bs) = uint b + 256 * le_decode bs"

definition field :: "nat \<Rightarrow> nat \<Rightarrow> byte list \<Rightarrow> byte list" where
  "field off len bs = take len (drop off bs)"

definition s16_decode :: "byte list \<Rightarrow> int" where
  "s16_decode bs = (let u = le_decode bs in if u < 32768 then u else u - 65536)"

subsection \<open>The signal generator (lines 17 to 29)\<close>

text \<open>Python's \<^verbatim>\<open>int(x)\<close> on a float truncates towards zero.\<close>

definition py_int :: "real \<Rightarrow> int" where
  "py_int x = (if 0 \<le> x then \<lfloor>x\<rfloor> else \<lceil>x\<rceil>)"

text \<open>
  The body of the loop for index \<open>i\<close>. The true division \<^verbatim>\<open>i / sample_rate\<close> raises
  \<^verbatim>\<open>ZeroDivisionError\<close> when the sample rate is 0.
\<close>

definition sample_value :: "int \<Rightarrow> real \<Rightarrow> real \<Rightarrow> nat \<Rightarrow> error + int" where
  "sample_value sample_rate frequency amplitude i =
     (if sample_rate = 0 then Inl ZeroDivisionError
      else
        let t = real i / real_of_int sample_rate;
            value = amplitude * sin (2 * pi * frequency * t);
            sample = py_int (value * 32767)
        in Inr sample)"

text \<open>\<^verbatim>\<open>for i in range(num_samples): ... samples.append(sample)\<close>\<close>

fun generate_loop :: "int \<Rightarrow> real \<Rightarrow> real \<Rightarrow> nat list \<Rightarrow> int list \<Rightarrow> error + int list" where
  "generate_loop sample_rate frequency amplitude [] samples = Inr samples"
| "generate_loop sample_rate frequency amplitude (i # rest) samples =
     (case sample_value sample_rate frequency amplitude i of
        Inl e \<Rightarrow> Inl e
      | Inr sample \<Rightarrow> generate_loop sample_rate frequency amplitude rest (samples @ [sample]))"

text \<open>\<^verbatim>\<open>range(n)\<close> is empty for \<open>n \<le> 0\<close>.\<close>

definition py_range :: "int \<Rightarrow> nat list" where
  "py_range n = [0..<nat n]"

definition num_samples_of :: "int \<Rightarrow> real \<Rightarrow> int" where
  "num_samples_of sample_rate duration = py_int (real_of_int sample_rate * duration)"

definition generate_samples :: "int \<Rightarrow> real \<Rightarrow> real \<Rightarrow> real \<Rightarrow> error + int list" where
  "generate_samples sample_rate duration frequency amplitude =
     (let num_samples = num_samples_of sample_rate duration
      in generate_loop sample_rate frequency amplitude (py_range num_samples) [])"

subsection \<open>The signal generator in binary64 arithmetic\<close>

text \<open>
  The generator above computes with real numbers. Where a statement depends on the
  rounding of the floating-point operations, the generator is modelled again with every
  operation rounded as IEEE-754 binary64 rounds it: to the nearest representable value,
  ties to the value with an even significand. A finite float is the real number it
  denotes. \<open>quantum x\<close> is the spacing of the binary64 values around \<open>x\<close> (53-bit
  significands, subnormal below 2 to the power -1022), and a result \<open>overflows\<close> when it rounds to
  2 to the power 1024 or beyond, which binary64 represents as an infinity.
\<close>

definition round_even :: "real \<Rightarrow> int" where
  "round_even y =
     (let n = \<lfloor>y\<rfloor>; r = y - real_of_int n
      in if r < 1 / 2 then n else if 1 / 2 < r then n + 1 else if even n then n else n + 1)"

definition quantum :: "real \<Rightarrow> real" where
  "quantum x = 2 powr real_of_int (max (\<lfloor>log 2 \<bar>x\<bar>\<rfloor> - 52) (- 1074))"

definition binary64 :: "real \<Rightarrow> real" where
  "binary64 x = (if x = 0 then 0 else real_of_int (round_even (x / quantum x)) * quantum x)"

definition overflows :: "real \<Rightarrow> bool" where
  "overflows x = (2 ^ 1024 \<le> \<bar>binary64 x\<bar>)"

text \<open>\<^verbatim>\<open>math.pi\<close>: the binary64 value nearest to \<open>pi\<close>.\<close>

definition math_pi :: real where
  "math_pi = 884279719003555 / 281474976710656"

text \<open>
  Line 18, \<^verbatim>\<open>int(sample_rate * duration)\<close>: the integer is converted to a float
  (\<^verbatim>\<open>OverflowError\<close> when it is too large), the product is rounded, and \<^verbatim>\<open>int\<close> raises
  \<^verbatim>\<open>OverflowError\<close> on an infinity. The duration is a finite float.
\<close>

definition num_samples_binary64 :: "int \<Rightarrow> real \<Rightarrow> error + int" where
  "num_samples_binary64 sample_rate duration =
     (if overflows (real_of_int sample_rate) then Inl OverflowError
      else
        let product = binary64 (real_of_int sample_rate) * duration
        in if overflows product then Inl OverflowError
           else Inr (py_int (binary64 product)))"

text \<open>
  Lines 24 to 28 up to the cast: the float \<^verbatim>\<open>value * 32767\<close> for index \<open>i\<close>. The true
  division of two integers is correctly rounded. \<^verbatim>\<open>math.sin\<close> is the sine of the
  platform's C library, a parameter \<open>msin\<close> of the model; it raises \<^verbatim>\<open>ValueError\<close> on an
  infinity, and a product of an infinity with zero is a NaN, on which the cast of line 28
  raises \<^verbatim>\<open>ValueError\<close>; the cast raises \<^verbatim>\<open>OverflowError\<close> on an infinity. Frequency and
  amplitude are finite floats.
\<close>

definition scaled_binary64 ::
  "(real \<Rightarrow> real) \<Rightarrow> int \<Rightarrow> real \<Rightarrow> real \<Rightarrow> nat \<Rightarrow> error + real" where
  "scaled_binary64 msin sample_rate frequency amplitude i =
     (if sample_rate = 0 then Inl ZeroDivisionError
      else if overflows (real i / real_of_int sample_rate) then Inl OverflowError
      else
        let t = binary64 (real i / real_of_int sample_rate);
            angle = binary64 (2 * math_pi) * frequency
        in if overflows angle then Inl ValueError
           else
             let phase = binary64 angle * t
             in if overflows phase then Inl ValueError
                else
                  let value = amplitude * msin (binary64 phase)
                  in if overflows value then Inl OverflowError
                     else
                       let scaled = binary64 value * 32767
                       in if overflows scaled then Inl OverflowError
                          else Inr (binary64 scaled))"

text \<open>Line 28, \<^verbatim>\<open>sample = int(value * 32767)\<close>, and the loop of lines 22 to 29.\<close>

definition sample_value_binary64 ::
  "(real \<Rightarrow> real) \<Rightarrow> int \<Rightarrow> real \<Rightarrow> real \<Rightarrow> nat \<Rightarrow> error + int" where
  "sample_value_binary64 msin sample_rate frequency amplitude i =
     (case scaled_binary64 msin sample_rate frequency amplitude i of
        Inl e \<Rightarrow> Inl e
      | Inr scaled \<Rightarrow> Inr (py_int scaled))"

fun generate_loop_binary64 ::
  "(real \<Rightarrow> real) \<Rightarrow> int \<Rightarrow> real \<Rightarrow> real \<Rightarrow> nat list \<Rightarrow> int list \<Rightarrow> error + int list" where
  "generate_loop_binary64 msin sample_rate frequency amplitude [] samples = Inr samples"
| "generate_loop_binary64 msin sample_rate frequency amplitude (i # rest) samples =
     (case sample_value_binary64 msin sample_rate frequency amplitude i of
        Inl e \<Rightarrow> Inl e
      | Inr sample \<Rightarrow>
          generate_loop_binary64 msin sample_rate frequency amplitude rest (samples @ [sample]))"

definition generate_samples_binary64 ::
  "(real \<Rightarrow> real) \<Rightarrow> int \<Rightarrow> real \<Rightarrow> real \<Rightarrow> real \<Rightarrow> error + int list" where
  "generate_samples_binary64 msin sample_rate duration frequency amplitude =
     (case num_samples_binary64 sample_rate duration of
        Inl e \<Rightarrow> Inl e
      | Inr num_samples \<Rightarrow>
          generate_loop_binary64 msin sample_rate frequency amplitude (py_range num_samples) [])"

subsection \<open>The container encoder (lines 31 to 59)\<close>

text \<open>
  The statements of the source in their order. \<open>data_size\<close> is computed from
  \<open>num_samples\<close>, not from the length of the list.
\<close>

definition encode_wav :: "int \<Rightarrow> int \<Rightarrow> int list \<Rightarrow> error + byte list" where
  "encode_wav sample_rate num_samples samples =
     (let data_size = num_samples * 2;
          file_size = 36 + data_size;
          wav_data = Inr [];
          wav_data = bytearray_extend wav_data (Inr (bytes_of ''RIFF''));
          wav_data = bytearray_extend wav_data (pack_I file_size);
          wav_data = bytearray_extend wav_data (Inr (bytes_of ''WAVE''));
          wav_data = bytearray_extend wav_data (Inr (bytes_of ''fmt ''));
          wav_data = bytearray_extend wav_data (pack_I 16);
          wav_data = bytearray_extend wav_data (pack_H 1);
          wav_data = bytearray_extend wav_data (pack_H 1);
          wav_data = bytearray_extend wav_data (pack_I sample_rate);
          wav_data = bytearray_extend wav_data (pack_I (sample_rate * 2));
          wav_data = bytearray_extend wav_data (pack_H 2);
          wav_data = bytearray_extend wav_data (pack_H 16);
          wav_data = bytearray_extend wav_data (Inr (bytes_of ''data''));
          wav_data = bytearray_extend wav_data (pack_I data_size);
          wav_data = fold (\<lambda>sample wav_data. bytearray_extend wav_data (pack_h sample)) samples wav_data
      in wav_data)"

text \<open>Lines 12 to 59: the bytearray the function holds when it reaches the file write.\<close>

definition wav_data_of :: "int \<Rightarrow> real \<Rightarrow> real \<Rightarrow> real \<Rightarrow> error + byte list" where
  "wav_data_of sample_rate duration frequency amplitude =
     (let num_samples = num_samples_of sample_rate duration
      in case generate_samples sample_rate duration frequency amplitude of
           Inl e \<Rightarrow> Inl e
         | Inr samples \<Rightarrow> encode_wav sample_rate num_samples samples)"

subsection \<open>The file write (lines 61 to 63)\<close>

text \<open>
  The part of the file system the script can observe: the directories that exist, the
  contents of the files, and the paths the process may not open for writing.
\<close>

record filesystem =
  dirs :: "string set"
  files :: "string \<rightharpoonup> byte list"
  denied :: "string set"

text \<open>The directory part of a path (empty for a path without a slash).\<close>

definition dirname :: "string \<Rightarrow> string" where
  "dirname p = rev (drop 1 (dropWhile (\<lambda>c. c \<noteq> CHR ''/'') (rev p)))"

text \<open>
  \<^verbatim>\<open>open(path, 'wb')\<close> on this file system: it creates or truncates the file and creates
  no directory. It raises \<^verbatim>\<open>NotADirectoryError\<close> when the directory part of the path is
  a regular file, \<^verbatim>\<open>FileNotFoundError\<close> when it does not exist,
  \<^verbatim>\<open>IsADirectoryError\<close> when the path itself is a directory and \<^verbatim>\<open>PermissionError\<close>
  when the path may not be written. All four are subclasses of \<^verbatim>\<open>OSError\<close>, which
  \<^verbatim>\<open>IOError\<close> is an alias of. \<^verbatim>\<open>f.write(wav_data)\<close> then appends the bytes to the
  truncated file. This file system has no failure of the write itself (a full disk, an
  error of the device) and no console: the function over an arbitrary environment, where
  the write and the prints can fail too, is \<open>create_48k_test_audio_env\<close> below.
\<close>

definition open_wb :: "string \<Rightarrow> filesystem \<Rightarrow> error + filesystem" where
  "open_wb path fs =
     (if dirname path \<noteq> [] \<and> files fs (dirname path) \<noteq> None then Inl NotADirectoryError
      else if dirname path \<noteq> [] \<and> dirname path \<notin> dirs fs then Inl FileNotFoundError
      else if path \<in> dirs fs then Inl IsADirectoryError
      else if path \<in> denied fs then Inl PermissionError
      else Inr (fs\<lparr>files := (files fs)(path \<mapsto> [])\<rparr>))"

definition write_bytes :: "string \<Rightarrow> byte list \<Rightarrow> filesystem \<Rightarrow> filesystem" where
  "write_bytes path bs fs =
     fs\<lparr>files := (files fs)(path \<mapsto> (case files fs path of None \<Rightarrow> [] | Some old \<Rightarrow> old) @ bs)\<rparr>"

definition is_IOError :: "error \<Rightarrow> bool" where
  "is_IOError e =
     (e = FileNotFoundError \<or> e = NotADirectoryError \<or> e = IsADirectoryError \<or>
      e = PermissionError)"

definition output_path :: string where
  "output_path = ''debug-audio/test-static.wav''"

subsection \<open>The whole function\<close>

text \<open>
  The result is the exception that left the function, if any, and the file system the
  function leaves behind. On this file system the write cannot fail and the five prints of
  lines 65 to 69, which come after the write, are taken to succeed.
\<close>

definition create_48k_test_audio_with ::
  "int \<Rightarrow> real \<Rightarrow> real \<Rightarrow> real \<Rightarrow> filesystem \<Rightarrow> (error + unit) \<times> filesystem" where
  "create_48k_test_audio_with sample_rate duration frequency amplitude fs =
     (case wav_data_of sample_rate duration frequency amplitude of
        Inl e \<Rightarrow> (Inl e, fs)
      | Inr wav_data \<Rightarrow>
          (case open_wb output_path fs of
             Inl e \<Rightarrow> (Inl e, fs)
           | Inr fs' \<Rightarrow> (Inr (), write_bytes output_path wav_data fs')))"

definition create_48k_test_audio :: "filesystem \<Rightarrow> (error + unit) \<times> filesystem" where
  "create_48k_test_audio fs = create_48k_test_audio_with 48000 1.0 440 0.3 fs"

text \<open>
  The same function over an arbitrary environment \<open>'w\<close> (file system, console and
  whatever else the operating system holds). The three operations the function performs
  on it are parameters: \<^verbatim>\<open>open(path, 'wb')\<close>, the write of the bytes with the close that
  ends the \<^verbatim>\<open>with\<close> block, and the five \<^verbatim>\<open>print\<close> calls of lines 65 to 69 taken as one
  step. Each returns the exception it raises, if any, and the environment it leaves. The
  function has no \<^verbatim>\<open>try\<close>: the first exception ends it.
\<close>

definition create_48k_test_audio_env ::
  "(string \<Rightarrow> 'w \<Rightarrow> (error + unit) \<times> 'w) \<Rightarrow>
   (string \<Rightarrow> byte list \<Rightarrow> 'w \<Rightarrow> (error + unit) \<times> 'w) \<Rightarrow>
   ('w \<Rightarrow> (error + unit) \<times> 'w) \<Rightarrow>
   int \<Rightarrow> real \<Rightarrow> real \<Rightarrow> real \<Rightarrow> 'w \<Rightarrow> (error + unit) \<times> 'w" where
  "create_48k_test_audio_env open_env write_env print_env
       sample_rate duration frequency amplitude w =
     (case wav_data_of sample_rate duration frequency amplitude of
        Inl e \<Rightarrow> (Inl e, w)
      | Inr wav_data \<Rightarrow>
          (case open_env output_path w of
             (Inl e, w1) \<Rightarrow> (Inl e, w1)
           | (Inr u, w1) \<Rightarrow>
               (case write_env output_path wav_data w1 of
                  (Inl e, w2) \<Rightarrow> (Inl e, w2)
                | (Inr u, w2) \<Rightarrow> print_env w2)))"

text \<open>
  The environment that is the file system above: \<open>open_wb\<close>, a write that cannot fail
  and a console that takes the text.
\<close>

definition fs_open :: "string \<Rightarrow> filesystem \<Rightarrow> (error + unit) \<times> filesystem" where
  "fs_open path fs = (case open_wb path fs of Inl e \<Rightarrow> (Inl e, fs) | Inr fs' \<Rightarrow> (Inr (), fs'))"

definition fs_write :: "string \<Rightarrow> byte list \<Rightarrow> filesystem \<Rightarrow> (error + unit) \<times> filesystem" where
  "fs_write path bs fs = (Inr (), write_bytes path bs fs)"

definition fs_print :: "filesystem \<Rightarrow> (error + unit) \<times> filesystem" where
  "fs_print fs = (Inr (), fs)"


definition wav_data_48k :: "error + byte list" where
  "wav_data_48k = wav_data_of 48000 1.0 440 0.3"

subsection \<open>Notions used in the statements\<close>

text \<open>
  The sample the loop body appends for index \<open>i\<close> when the division is defined, the 44
  bytes that precede the samples, the range of the format \<^verbatim>\<open>'<h'\<close>, and the sample a
  run emits at an index, if it emits one.
\<close>

definition sample_at :: "int \<Rightarrow> real \<Rightarrow> real \<Rightarrow> nat \<Rightarrow> int" where
  "sample_at sample_rate frequency amplitude i =
     py_int (amplitude * sin (2 * pi * frequency * (real i / real_of_int sample_rate)) * 32767)"

definition wav_header :: "int \<Rightarrow> int \<Rightarrow> byte list" where
  "wav_header sample_rate num_samples =
     bytes_of ''RIFF'' @ le_bytes 4 (36 + num_samples * 2) @ bytes_of ''WAVE'' @
     bytes_of ''fmt '' @ le_bytes 4 16 @ le_bytes 2 1 @ le_bytes 2 1 @
     le_bytes 4 sample_rate @ le_bytes 4 (sample_rate * 2) @ le_bytes 2 2 @ le_bytes 2 16 @
     bytes_of ''data'' @ le_bytes 4 (num_samples * 2)"

definition int16 :: "int \<Rightarrow> bool" where
  "int16 s = (- 32768 \<le> s \<and> s \<le> 32767)"


text \<open>
  Two file systems: one in which the directory \<^verbatim>\<open>debug-audio\<close> does not exist, and one
  in which it does. Neither denies any path.
\<close>

definition fresh_fs :: filesystem where
  "fresh_fs = \<lparr>dirs = {}, files = Map.empty, denied = {}\<rparr>"

definition ready_fs :: filesystem where
  "ready_fs = \<lparr>dirs = {''debug-audio''}, files = Map.empty, denied = {}\<rparr>"

section \<open>Properties\<close>

subsection \<open>Packing and the encoder\<close>

lemma length_le_bytes: "length (le_bytes n x) = n"
  by (induction n arbitrary: x) simp_all

lemma le_decode_le_bytes: "le_decode (le_bytes n x) = x mod 256 ^ n"
proof (induction n arbitrary: x)
  case 0
  show ?case by simp
next
  case (Suc n)
  have "uint (word_of_int x :: byte) = x mod 256"
    by (simp add: uint_word_of_int)
  then have "le_decode (le_bytes (Suc n) x) = x mod 256 + 256 * ((x div 256) mod 256 ^ n)"
    by (simp add: Suc.IH)
  also have "\<dots> = x mod (256 * 256 ^ n)"
    by (simp add: zmod_zmult2_eq)
  finally show ?case by simp
qed

lemma le_decode_le_bytes_id: "0 \<le> x \<Longrightarrow> x < 256 ^ n \<Longrightarrow> le_decode (le_bytes n x) = x"
  by (simp add: le_decode_le_bytes)

lemma extend_simps:
  "bytearray_extend (Inl e) p = Inl e"
  "bytearray_extend (Inr w) (Inl e) = Inl e"
  "bytearray_extend (Inr w) (Inr b) = Inr (w @ b)"
  by (simp_all add: bytearray_extend_def)


lemma fold_extend_Inr:
  "list_all (\<lambda>s. - 32768 \<le> s \<and> s \<le> 32767) samples \<Longrightarrow>
   fold (\<lambda>sample wav_data. bytearray_extend wav_data (pack_h sample)) samples (Inr w)
     = Inr (w @ concat (map (le_bytes 2) samples))"
  by (induction samples arbitrary: w) (simp_all add: extend_simps pack_h_def)



lemma length_bytes_of: "length (bytes_of s) = length s"
  by (simp add: bytes_of_def)

lemma length_wav_header: "length (wav_header sr n) = 44"
  by (simp add: wav_header_def length_bytes_of length_le_bytes)

lemma fold_extend_int16:
  "list_all int16 samples \<Longrightarrow>
   fold (\<lambda>sample wav_data. bytearray_extend wav_data (pack_h sample)) samples (Inr w)
     = Inr (w @ concat (map (le_bytes 2) samples))"
  using fold_extend_Inr [of samples w] by (simp add: int16_def [abs_def])


lemma pack_I_Inr: "0 \<le> x \<Longrightarrow> x \<le> 4294967295 \<Longrightarrow> pack_I x = Inr (le_bytes 4 x)"
  by (simp add: pack_I_def)

lemma pack_I_Inl: "x < 0 \<or> 4294967295 < x \<Longrightarrow> pack_I x = Inl StructError"
  by (auto simp add: pack_I_def)

lemma pack_H_const: "pack_H 1 = Inr (le_bytes 2 1)" "pack_H 2 = Inr (le_bytes 2 2)"
  "pack_H 16 = Inr (le_bytes 2 16)" "pack_I 16 = Inr (le_bytes 4 16)"
  by (simp_all add: pack_H_def pack_I_def)

lemma encode_wav_Inr:
  assumes "0 \<le> sr" "sr * 2 \<le> 4294967295" "0 \<le> n" "36 + n * 2 \<le> 4294967295"
    and "list_all int16 samples"
  shows "encode_wav sr n samples = Inr (wav_header sr n @ concat (map (le_bytes 2) samples))"
proof -
  have "pack_I (36 + n * 2) = Inr (le_bytes 4 (36 + n * 2))"
    and "pack_I sr = Inr (le_bytes 4 sr)"
    and "pack_I (sr * 2) = Inr (le_bytes 4 (sr * 2))"
    and "pack_I (n * 2) = Inr (le_bytes 4 (n * 2))"
    using assms by (simp_all add: pack_I_Inr)
  then show ?thesis
    using assms(5)
    by (simp add: encode_wav_def Let_def pack_H_const extend_simps fold_extend_int16
        wav_header_def)
qed



lemma generate_loop_map:
  "sr \<noteq> 0 \<Longrightarrow>
   generate_loop sr f a idxs samples = Inr (samples @ map (sample_at sr f a) idxs)"
  by (induction idxs arbitrary: samples) (simp_all add: sample_value_def sample_at_def Let_def)

lemma num_samples_of_zero: "num_samples_of 0 d = 0"
  by (simp add: num_samples_of_def py_int_def)

lemma generate_samples_eq:
  "generate_samples sr d f a = Inr (map (sample_at sr f a) (py_range (num_samples_of sr d)))"
proof (cases "sr = 0")
  case True
  then show ?thesis
    by (simp add: generate_samples_def num_samples_of_zero py_range_def)
next
  case False
  then show ?thesis
    by (simp add: generate_samples_def generate_loop_map)
qed

lemma length_py_range: "length (py_range n) = nat n"
  by (simp add: py_range_def)

lemma nth_py_range: "i < nat n \<Longrightarrow> py_range n ! i = i"
  by (simp add: py_range_def)

lemma abs_py_int: "\<bar>py_int x\<bar> = \<lfloor>\<bar>x\<bar>\<rfloor>"
proof (cases "0 \<le> x")
  case True
  then show ?thesis by (simp add: py_int_def)
next
  case False
  then have "\<lceil>x\<rceil> \<le> 0" by (simp add: ceiling_le_zero)
  with False show ?thesis by (simp add: py_int_def ceiling_def)
qed

lemma abs_sample_at: "\<bar>sample_at sr f a i\<bar> \<le> \<lfloor>\<bar>a\<bar> * 32767\<rfloor>"
proof -
  let ?x = "2 * pi * f * (real i / real_of_int sr)"
  have "\<bar>a * sin ?x\<bar> \<le> \<bar>a\<bar> * 1"
    unfolding abs_mult by (rule mult_left_mono) simp_all
  then have "\<bar>a * sin ?x * 32767\<bar> \<le> \<bar>a\<bar> * 32767"
    by (simp add: abs_mult)
  then have "\<lfloor>\<bar>a * sin ?x * 32767\<bar>\<rfloor> \<le> \<lfloor>\<bar>a\<bar> * 32767\<rfloor>"
    by (rule floor_mono)
  then show ?thesis
    by (simp only: sample_at_def abs_py_int)
qed

lemma int16_sample_at: "\<bar>a\<bar> \<le> 1 \<Longrightarrow> int16 (sample_at sr f a i)"
proof -
  assume "\<bar>a\<bar> \<le> 1"
  then have "\<bar>a\<bar> * 32767 \<le> 32767" by simp
  then have "\<lfloor>\<bar>a\<bar> * 32767\<rfloor> \<le> 32767" by linarith
  with abs_sample_at [of sr f a i] have "\<bar>sample_at sr f a i\<bar> \<le> 32767" by linarith
  then show ?thesis unfolding int16_def by linarith
qed


lemma num_samples_of_floor:
  "0 \<le> sr \<Longrightarrow> 0 \<le> d \<Longrightarrow> num_samples_of sr d = \<lfloor>real_of_int sr * d\<rfloor>"
  by (simp add: num_samples_of_def py_int_def)

lemma field_header:
  "field 0 4 (wav_header sr n @ rest) = bytes_of ''RIFF''"
  "field 4 4 (wav_header sr n @ rest) = le_bytes 4 (36 + n * 2)"
  "field 8 4 (wav_header sr n @ rest) = bytes_of ''WAVE''"
  "field 12 4 (wav_header sr n @ rest) = bytes_of ''fmt ''"
  "field 16 4 (wav_header sr n @ rest) = le_bytes 4 16"
  "field 20 2 (wav_header sr n @ rest) = le_bytes 2 1"
  "field 22 2 (wav_header sr n @ rest) = le_bytes 2 1"
  "field 24 4 (wav_header sr n @ rest) = le_bytes 4 sr"
  "field 28 4 (wav_header sr n @ rest) = le_bytes 4 (sr * 2)"
  "field 32 2 (wav_header sr n @ rest) = le_bytes 2 2"
  "field 34 2 (wav_header sr n @ rest) = le_bytes 2 16"
  "field 36 4 (wav_header sr n @ rest) = bytes_of ''data''"
  "field 40 4 (wav_header sr n @ rest) = le_bytes 4 (n * 2)"
  by (simp_all add: field_def wav_header_def length_bytes_of length_le_bytes)

lemma length_concat_le_bytes: "length (concat (map (le_bytes 2) samples)) = 2 * length samples"
  by (induction samples) (simp_all add: length_le_bytes)

text \<open>The two bytes of a sample read back as the sample: the packing is two's complement.\<close>

lemma s16_decode_le_bytes: "int16 s \<Longrightarrow> s16_decode (le_bytes 2 s) = s"
proof -
  assume "int16 s"
  then have r: "- 32768 \<le> s" "s \<le> 32767" by (simp_all add: int16_def)
  have d: "le_decode (le_bytes 2 s) = s mod 65536"
    by (simp add: le_decode_le_bytes)
  show ?thesis
  proof (cases "0 \<le> s")
    case True
    with r have "s mod 65536 = s" by simp
    with r show ?thesis by (simp add: s16_decode_def d Let_def)
  next
    case False
    with r have "s mod 65536 = s + 65536"
      by (intro mod_pos_pos_trivial [of "s + 65536" 65536, simplified] ) simp_all
    with False r show ?thesis by (simp add: s16_decode_def d Let_def)
  qed
qed

subsection \<open>The generator and the whole byte sequence\<close>

lemma wav_data_of_eq:
  "wav_data_of sr d f a =
     encode_wav sr (num_samples_of sr d) (map (sample_at sr f a) (py_range (num_samples_of sr d)))"
  by (simp add: wav_data_of_def generate_samples_eq Let_def)

lemma list_all_int16_samples:
  "\<bar>a\<bar> \<le> 1 \<Longrightarrow> list_all int16 (map (sample_at sr f a) idxs)"
  by (simp add: list_all_iff int16_sample_at)

lemma wav_data_of_Inr:
  assumes "0 \<le> sr" "sr * 2 \<le> 4294967295" "0 \<le> num_samples_of sr d"
    "36 + num_samples_of sr d * 2 \<le> 4294967295" "\<bar>a\<bar> \<le> 1"
  shows "wav_data_of sr d f a =
     Inr (wav_header sr (num_samples_of sr d) @
          concat (map (le_bytes 2) (map (sample_at sr f a) (py_range (num_samples_of sr d)))))"
  unfolding wav_data_of_eq
  using assms by (intro encode_wav_Inr list_all_int16_samples)


lemma num_samples_48k: "num_samples_of 48000 1 = 48000"
  by (simp add: num_samples_of_def py_int_def)

lemma num_samples_tiny: "num_samples_of 2147483648 (1 / 2147483648) = 1"
  by (simp add: num_samples_of_def py_int_def)

subsection \<open>Binary64 rounding and the binary64 generator\<close>

text \<open>
  Rounding moves a value by less than one quantum, keeps its sign, and leaves a value
  that is a multiple of its quantum where it is. The lemmas \<open>num_samples_binary64_0_011\<close>
  and \<open>num_samples_binary64_0_009\<close> evaluate line 18 at 48000 Hz with the floats written
  \<^verbatim>\<open>0.011\<close> and \<^verbatim>\<open>0.009\<close>: 528 and 431 samples, where the products of the real numbers
  11/1000 and 9/1000 would give 527 and 432.
\<close>

lemma round_even_of_int: "round_even (real_of_int n) = n"
  by (simp add: round_even_def)

lemma round_even_bounds: "\<lfloor>y\<rfloor> \<le> round_even y \<and> round_even y \<le> \<lfloor>y\<rfloor> + 1"
  by (simp add: round_even_def Let_def)

lemma abs_round_even_le: "\<bar>real_of_int (round_even y)\<bar> \<le> \<bar>y\<bar> + 1"
  using round_even_bounds [of y] by linarith

lemma round_even_nonneg: "0 \<le> y \<Longrightarrow> 0 \<le> round_even y"
  using round_even_bounds [of y] by (smt (verit) zero_le_floor)

lemma quantum_pos: "0 < quantum x"
  by (simp add: quantum_def)

lemma quantum_le: "quantum x \<le> \<bar>x\<bar> + 1"
proof (cases "x = 0")
  case True
  have "(2::real) powr real_of_int (max (\<lfloor>log 2 \<bar>x\<bar>\<rfloor> - 52) (- 1074)) \<le> 2 powr 0"
    unfolding True by (intro powr_mono) (simp_all add: log_def)
  then show ?thesis by (simp add: quantum_def True)
next
  case False
  show ?thesis
  proof (cases "\<lfloor>log 2 \<bar>x\<bar>\<rfloor> - 52 \<le> - 1074")
    case True
    then have "quantum x = 2 powr (- 1074)" by (simp add: quantum_def max_def)
    also have "\<dots> \<le> 2 powr 0" by (intro powr_mono) simp_all
    finally show ?thesis by simp
  next
    case False
    then have "quantum x = 2 powr real_of_int (\<lfloor>log 2 \<bar>x\<bar>\<rfloor> - 52)"
      by (simp add: quantum_def max_def)
    also have "\<dots> \<le> 2 powr (log 2 \<bar>x\<bar>)"
      by (intro powr_mono) (simp_all, linarith)
    also have "\<dots> = \<bar>x\<bar>" using \<open>x \<noteq> 0\<close> by simp
    finally show ?thesis by simp
  qed
qed

lemma abs_binary64_le: "\<bar>binary64 x\<bar> \<le> 2 * \<bar>x\<bar> + 1"
proof (cases "x = 0")
  case True
  then show ?thesis by (simp add: binary64_def)
next
  case False
  let ?q = "quantum x"
  have q: "0 < ?q" by (rule quantum_pos)
  have "\<bar>binary64 x\<bar> = \<bar>real_of_int (round_even (x / ?q))\<bar> * ?q"
    using False q by (simp add: binary64_def abs_mult)
  also have "\<dots> \<le> (\<bar>x / ?q\<bar> + 1) * ?q"
    using q abs_round_even_le [of "x / ?q"] by (intro mult_right_mono) simp_all
  also have "\<dots> = \<bar>x\<bar> + ?q"
    using q by (simp add: field_simps)
  also have "\<dots> \<le> 2 * \<bar>x\<bar> + 1"
    using quantum_le [of x] by simp
  finally show ?thesis .
qed

lemma binary64_nonneg: "0 \<le> x \<Longrightarrow> 0 \<le> binary64 x"
  using quantum_pos [of x]
  by (simp add: binary64_def round_even_nonneg)

lemma binary64_zero: "binary64 0 = 0"
  by (simp add: binary64_def)

lemma not_overflows: "\<bar>x\<bar> \<le> 2 ^ 1000 \<Longrightarrow> \<not> overflows x"
proof -
  assume "\<bar>x\<bar> \<le> 2 ^ 1000"
  with abs_binary64_le [of x] have "\<bar>binary64 x\<bar> \<le> 2 * 2 ^ 1000 + 1" by linarith
  also have "\<dots> < (2 ^ 1024 :: real)" by simp
  finally show ?thesis by (simp add: overflows_def)
qed


lemma quantumI:
  assumes "2 powr real_of_int k \<le> \<bar>x\<bar>" "\<bar>x\<bar> < 2 powr real_of_int (k + 1)" "- 1022 \<le> k"
  shows "quantum x = 2 powr real_of_int (k - 52)"
proof -
  have "0 < \<bar>x\<bar>" using assms(1) by (smt (verit) powr_gt_zero)
  then have "\<lfloor>log 2 \<bar>x\<bar>\<rfloor> = k"
    using assms(1,2) by (simp add: floor_log_eq_powr_iff)
  moreover have "max (k - 52) (- 1074) = k - 52" using assms(3) by simp
  ultimately show ?thesis by (simp only: quantum_def)
qed

lemma binary64_exact:
  assumes "quantum x = q" and "x / q = real_of_int m"
  shows "binary64 x = x"
proof (cases "x = 0")
  case True
  then show ?thesis by (simp add: binary64_def)
next
  case False
  have q: "q \<noteq> 0" using quantum_pos [of x] assms(1) by simp
  have "binary64 x = real_of_int (round_even (real_of_int m)) * q"
    using False assms by (simp add: binary64_def)
  also have "\<dots> = x / q * q" by (simp only: round_even_of_int assms(2))
  finally show ?thesis using q by simp
qed

lemma binary64_48000: "binary64 48000 = 48000"
proof -
  have "quantum 48000 = 2 powr (- 37)"
    using quantumI [of 15 48000] by simp
  moreover have "48000 / (2 powr (- 37) :: real) = real_of_int (48000 * 2 ^ 37)"
    by (simp add: powr_minus field_simps)
  ultimately show ?thesis by (rule binary64_exact)
qed

lemma binary64_93_75: "binary64 (375 / 4) = 375 / 4"
proof -
  have "quantum (375 / 4) = 2 powr (- 46)"
    using quantumI [of 6 "375 / 4"] by simp
  moreover have "375 / 4 / (2 powr (- 46) :: real) = real_of_int (375 * 2 ^ 44)"
    by (simp add: powr_minus field_simps)
  ultimately show ?thesis by (rule binary64_exact)
qed

lemma not_overflows_48000: "\<not> overflows 48000" "\<not> overflows (375 / 4)"
  by (rule not_overflows, simp)+


lemma num_samples_binary64_512: "num_samples_binary64 48000 (1 / 512) = Inr 93"
  using not_overflows_48000
  by (simp add: num_samples_binary64_def binary64_48000 binary64_93_75 py_int_def)


lemma round_even_down:
  assumes "y = real_of_int n + r" "0 \<le> r" "r < 1 / 2"
  shows "round_even y = n"
proof -
  have "\<lfloor>y\<rfloor> = n" using assms by linarith
  then show ?thesis using assms by (simp add: round_even_def Let_def)
qed

lemma round_even_up:
  assumes "y = real_of_int n + r" "1 / 2 < r" "r < 1"
  shows "round_even y = n + 1"
proof -
  have "\<lfloor>y\<rfloor> = n" using assms by linarith
  then show ?thesis using assms by (simp add: round_even_def Let_def)
qed

lemma binary64_eval:
  assumes "quantum x = q" and "x \<noteq> 0" and "round_even (x / q) = m"
  shows "binary64 x = real_of_int m * q"
  using assms by (simp add: binary64_def)

lemma binary64_0_011: "binary64 (48000 * (3170534137668829 / 2 ^ 58)) = 528"
proof -
  define x :: real where "x = 48000 * (3170534137668829 / 2 ^ 58)"
  have q: "quantum x = 2 powr (- 43)"
    using quantumI [of 9 x] by (simp add: x_def)
  have "x / 2 powr (- 43) = real_of_int 4644337115725823 + 187 / 256"
    by (simp add: x_def powr_minus field_simps)
  then have "round_even (x / 2 powr (- 43)) = 4644337115725823 + 1"
    by (rule round_even_up) simp_all
  with q have "binary64 x = real_of_int (4644337115725823 + 1) * 2 powr (- 43)"
    by (intro binary64_eval) (simp_all add: x_def)
  then have "binary64 x = 528" by (simp add: powr_minus)
  then show ?thesis by (simp only: x_def)
qed

lemma binary64_0_009:
  "binary64 (48000 * (5188146770730811 / 2 ^ 59)) = 7599824371187711 / 2 ^ 44"
proof -
  define x :: real where "x = 48000 * (5188146770730811 / 2 ^ 59)"
  have q: "quantum x = 2 powr (- 44)"
    using quantumI [of 8 x] by (simp add: x_def)
  have "x / 2 powr (- 44) = real_of_int 7599824371187711 + 109 / 256"
    by (simp add: x_def powr_minus field_simps)
  then have "round_even (x / 2 powr (- 44)) = 7599824371187711"
    by (rule round_even_down) simp_all
  with q have "binary64 x = real_of_int 7599824371187711 * 2 powr (- 44)"
    by (intro binary64_eval) (simp_all add: x_def)
  then have "binary64 x = 7599824371187711 / 2 ^ 44" by (simp add: powr_minus field_simps)
  then show ?thesis by (simp only: x_def)
qed

lemma num_samples_binary64_eval:
  assumes "binary64 (real_of_int sr) = real_of_int sr" and "\<not> overflows (real_of_int sr)"
    and "\<not> overflows (real_of_int sr * d)" and "binary64 (real_of_int sr * d) = y"
  shows "num_samples_binary64 sr d = Inr (py_int y)"
  using assms by (simp only: num_samples_binary64_def Let_def if_False)

lemma num_samples_binary64_0_011:
  "num_samples_binary64 48000 (3170534137668829 / 2 ^ 58) = Inr 528"
proof -
  have "num_samples_binary64 48000 (3170534137668829 / 2 ^ 58) = Inr (py_int 528)"
  proof (rule num_samples_binary64_eval)
    show "binary64 (real_of_int 48000) = real_of_int 48000" by (simp add: binary64_48000)
    show "\<not> overflows (real_of_int 48000)" by (rule not_overflows) simp
    show "\<not> overflows (real_of_int 48000 * (3170534137668829 / 2 ^ 58))"
      by (rule not_overflows) simp
    show "binary64 (real_of_int 48000 * (3170534137668829 / 2 ^ 58)) = 528"
      using binary64_0_011 by (simp only: of_int_numeral)
  qed
  then show ?thesis by (simp add: py_int_def)
qed

lemma num_samples_binary64_0_009:
  "num_samples_binary64 48000 (5188146770730811 / 2 ^ 59) = Inr 431"
proof -
  have "num_samples_binary64 48000 (5188146770730811 / 2 ^ 59)
      = Inr (py_int (7599824371187711 / 2 ^ 44))"
  proof (rule num_samples_binary64_eval)
    show "binary64 (real_of_int 48000) = real_of_int 48000" by (simp add: binary64_48000)
    show "\<not> overflows (real_of_int 48000)" by (rule not_overflows) simp
    show "\<not> overflows (real_of_int 48000 * (5188146770730811 / 2 ^ 59))"
      by (rule not_overflows) simp
    show "binary64 (real_of_int 48000 * (5188146770730811 / 2 ^ 59)) = 7599824371187711 / 2 ^ 44"
      using binary64_0_009 by (simp only: of_int_numeral)
  qed
  then show ?thesis by (simp add: py_int_def)
qed


lemma generate_loop_binary64_Inr:
  "generate_loop_binary64 msin sr f a idxs acc = Inr out \<Longrightarrow>
   \<exists>ss. out = acc @ ss \<and> length ss = length idxs \<and>
     (\<forall>k < length idxs. sample_value_binary64 msin sr f a (idxs ! k) = Inr (ss ! k))"
proof (induction idxs arbitrary: acc)
  case Nil
  then show ?case by simp
next
  case (Cons i rest)
  from Cons.prems obtain s where s: "sample_value_binary64 msin sr f a i = Inr s"
    and r: "generate_loop_binary64 msin sr f a rest (acc @ [s]) = Inr out"
    by (auto split: sum.splits)
  from Cons.IH [OF r] obtain ss where ss: "out = (acc @ [s]) @ ss" "length ss = length rest"
    "\<forall>k < length rest. sample_value_binary64 msin sr f a (rest ! k) = Inr (ss ! k)"
    by blast
  have "\<forall>k < length (i # rest).
      sample_value_binary64 msin sr f a ((i # rest) ! k) = Inr ((s # ss) ! k)"
  proof (intro allI impI)
    fix k assume "k < length (i # rest)"
    then show "sample_value_binary64 msin sr f a ((i # rest) ! k) = Inr ((s # ss) ! k)"
      using s ss(3) by (cases k) simp_all
  qed
  with ss(1,2) show ?case
    by (intro exI [of _ "s # ss"]) simp
qed

lemma generate_loop_binary64_returns:
  "(\<forall>i \<in> set idxs. \<exists>s. sample_value_binary64 msin sr f a i = Inr s) \<Longrightarrow>
   \<exists>out. generate_loop_binary64 msin sr f a idxs acc = Inr out"
proof (induction idxs arbitrary: acc)
  case Nil
  show ?case by simp
next
  case (Cons i rest)
  then obtain s where "sample_value_binary64 msin sr f a i = Inr s" by auto
  moreover from Cons have "\<exists>out. generate_loop_binary64 msin sr f a rest (acc @ [s]) = Inr out"
    by simp
  ultimately show ?case by simp
qed

lemma generate_samples_binary64_Inr:
  assumes "generate_samples_binary64 msin sr d f a = Inr samples"
  shows "\<exists>n. num_samples_binary64 sr d = Inr n \<and> length samples = nat n \<and>
     (\<forall>i < nat n. sample_value_binary64 msin sr f a i = Inr (samples ! i))"
proof -
  from assms obtain n where n: "num_samples_binary64 sr d = Inr n"
    and l: "generate_loop_binary64 msin sr f a (py_range n) [] = Inr samples"
    by (auto simp add: generate_samples_binary64_def split: sum.splits)
  from generate_loop_binary64_Inr [OF l] obtain ss where
    "samples = [] @ ss" "length ss = length (py_range n)"
    "\<forall>k < length (py_range n).
       sample_value_binary64 msin sr f a (py_range n ! k) = Inr (ss ! k)"
    by blast
  then have "length samples = nat n"
    and "\<forall>i < nat n. sample_value_binary64 msin sr f a i = Inr (samples ! i)"
    by (simp_all add: length_py_range nth_py_range)
  with n show ?thesis by blast
qed


lemma abs_mult_le:
  fixes x y :: real
  assumes "\<bar>x\<bar> \<le> a" and "\<bar>y\<bar> \<le> b"
  shows "\<bar>x * y\<bar> \<le> a * b"
proof -
  have "0 \<le> a" using assms(1) by linarith
  then show ?thesis
    unfolding abs_mult using assms by (intro mult_mono) simp_all
qed

lemma abs_binary64_two_pi: "\<bar>binary64 (2 * math_pi)\<bar> \<le> 16"
proof -
  have "\<bar>2 * math_pi\<bar> \<le> 7" by (simp add: math_pi_def)
  with abs_binary64_le [of "2 * math_pi"] show ?thesis by linarith
qed

lemma scaled_binary64_returns:
  assumes "0 < sr" and "real i \<le> 2 ^ 200" and "\<bar>f\<bar> \<le> 2147483648" and "\<bar>a\<bar> \<le> 1"
    and "\<forall>x. \<bar>msin x\<bar> \<le> 1"
  shows "\<exists>x. scaled_binary64 msin sr f a i = Inr x"
proof -
  define q where "q = real i / real_of_int sr"
  define t where "t = binary64 q"
  define angle where "angle = binary64 (2 * math_pi) * f"
  define phase where "phase = binary64 angle * t"
  define v where "v = a * msin (binary64 phase)"
  define scaled where "scaled = binary64 v * 32767"
  have sr: "1 \<le> real_of_int sr" using assms(1) by simp
  have "\<bar>q\<bar> = real i / real_of_int sr" using sr by (simp add: q_def)
  also have "\<dots> \<le> real i / 1" using sr by (intro divide_left_mono) simp_all
  finally have q: "\<bar>q\<bar> \<le> 2 ^ 200" using assms(2) by simp
  then have o1: "\<not> overflows q" by (intro not_overflows) simp
  have t: "\<bar>t\<bar> \<le> 2 ^ 202" using abs_binary64_le [of q] q by (simp add: t_def)
  have "\<bar>angle\<bar> \<le> 16 * 2147483648"
    unfolding angle_def using abs_binary64_two_pi assms(3) by (rule abs_mult_le)
  then have angle: "\<bar>angle\<bar> \<le> 2 ^ 35" by simp
  then have o2: "\<not> overflows angle" by (intro not_overflows) simp
  have ba: "\<bar>binary64 angle\<bar> \<le> 2 ^ 37" using abs_binary64_le [of angle] angle by simp
  have "\<bar>phase\<bar> \<le> 2 ^ 37 * 2 ^ 202"
    unfolding phase_def using ba t by (rule abs_mult_le)
  then have o3: "\<not> overflows phase" by (intro not_overflows) simp
  have "\<bar>v\<bar> \<le> 1 * 1"
    unfolding v_def using assms(4) assms(5) [rule_format] by (rule abs_mult_le)
  then have v: "\<bar>v\<bar> \<le> 1" by simp
  then have o4: "\<not> overflows v" by (intro not_overflows) simp
  have bv: "\<bar>binary64 v\<bar> \<le> 3" using abs_binary64_le [of v] v by simp
  have "\<bar>scaled\<bar> \<le> 3 * 32767"
    unfolding scaled_def using bv by (rule abs_mult_le) simp
  then have o5: "\<not> overflows scaled" by (intro not_overflows) simp
  have "scaled_binary64 msin sr f a i = Inr (binary64 scaled)"
    using assms(1) o1 o2 o3 o4 o5
    unfolding scaled_binary64_def q_def t_def angle_def phase_def v_def scaled_def Let_def
    by simp
  then show ?thesis by blast
qed

lemma num_samples_binary64_returns:
  assumes "0 < sr" and "sr \<le> 2147483648" and "0 < d" and "d \<le> 2147483648"
  shows "num_samples_binary64 sr d = Inr \<lfloor>binary64 (binary64 (real_of_int sr) * d)\<rfloor> \<and>
         \<lfloor>binary64 (binary64 (real_of_int sr) * d)\<rfloor> \<le> 2 ^ 100"
proof -
  define p where "p = binary64 (real_of_int sr) * d"
  have s: "\<bar>real_of_int sr\<bar> \<le> 2147483648" using assms(1,2) by simp
  then have o1: "\<not> overflows (real_of_int sr)" by (intro not_overflows) simp
  have bs: "\<bar>binary64 (real_of_int sr)\<bar> \<le> 2 ^ 33"
    using abs_binary64_le [of "real_of_int sr"] s by simp
  have "\<bar>d\<bar> \<le> 2147483648" using assms(3,4) by simp
  with bs have "\<bar>p\<bar> \<le> 2 ^ 33 * 2147483648" unfolding p_def by (rule abs_mult_le)
  then have p: "\<bar>p\<bar> \<le> 2 ^ 64" by simp
  then have o2: "\<not> overflows p" by (intro not_overflows) simp
  have "0 \<le> binary64 (real_of_int sr)" using assms(1) by (intro binary64_nonneg) simp
  then have "0 \<le> p" using assms(3) by (simp add: p_def)
  then have nn: "0 \<le> binary64 p" by (rule binary64_nonneg)
  have "\<bar>binary64 p\<bar> \<le> 2 ^ 66" using abs_binary64_le [of p] p by simp
  then have "\<lfloor>binary64 p\<rfloor> \<le> 2 ^ 100" by (simp add: floor_le_iff)
  moreover have "num_samples_binary64 sr d = Inr \<lfloor>binary64 p\<rfloor>"
    using o1 o2 nn unfolding num_samples_binary64_def p_def Let_def py_int_def by simp
  ultimately show ?thesis by (simp add: p_def)
qed

lemma generate_samples_binary64_returns:
  assumes "0 < sr" and "sr \<le> 2147483648" and "0 < d" and "d \<le> 2147483648"
    and "\<bar>f\<bar> \<le> 2147483648" and "\<bar>a\<bar> \<le> 1" and "\<forall>x. \<bar>msin x\<bar> \<le> 1"
  shows "\<exists>samples. generate_samples_binary64 msin sr d f a = Inr samples"
proof -
  let ?n = "\<lfloor>binary64 (binary64 (real_of_int sr) * d)\<rfloor>"
  from num_samples_binary64_returns [OF assms(1-4)]
  have n: "num_samples_binary64 sr d = Inr ?n" and b: "?n \<le> 2 ^ 100" by simp_all
  have "\<exists>s. sample_value_binary64 msin sr f a i = Inr s" if "i \<in> set (py_range ?n)" for i
  proof -
    from that have "int i < ?n" by (simp add: py_range_def)
    with b have "int i \<le> 2 ^ 100" by linarith
    then have "real_of_int (int i) \<le> real_of_int (2 ^ 100)" by (rule of_int_le_iff [THEN iffD2])
    then have "real i \<le> 2 ^ 200" by simp
    from scaled_binary64_returns [OF assms(1) this assms(5-7)]
    show ?thesis by (auto simp add: sample_value_binary64_def)
  qed
  then have "\<exists>out. generate_loop_binary64 msin sr f a (py_range ?n) [] = Inr out"
    by (intro generate_loop_binary64_returns) blast
  then show ?thesis by (simp add: generate_samples_binary64_def n)
qed


lemma num_samples_binary64_floor:
  assumes "0 < sr" and "0 < d" and "num_samples_binary64 sr d = Inr n"
  shows "n = \<lfloor>binary64 (binary64 (real_of_int sr) * d)\<rfloor>"
proof -
  have "0 \<le> binary64 (real_of_int sr)" using assms(1) by (intro binary64_nonneg) simp
  then have "0 \<le> binary64 (real_of_int sr) * d" using assms(2) by simp
  then have "0 \<le> binary64 (binary64 (real_of_int sr) * d)" by (rule binary64_nonneg)
  then show ?thesis
    using assms(3)
    by (auto simp add: num_samples_binary64_def Let_def py_int_def split: if_splits)
qed

lemma generate_48k_binary64_returns:
  "0 < d \<Longrightarrow> d \<le> 1 \<Longrightarrow> \<exists>samples. generate_samples_binary64 sin 48000 d 440 (3 / 10) = Inr samples"
  by (intro generate_samples_binary64_returns) simp_all

section \<open>The claims\<close>

subsection \<open>C1: the 44-byte header\<close>




subsection \<open>C2: the scenario of the source\<close>

lemma open_wb_ready: "open_wb output_path ready_fs
   = Inr (ready_fs\<lparr>files := (files ready_fs)(output_path \<mapsto> [])\<rparr>)"
  by (simp add: open_wb_def ready_fs_def output_path_def dirname_def)

lemma create_with_written:
  assumes "wav_data_of sr d f a = Inr bs" and "open_wb output_path fs = Inr fs'"
  shows "create_48k_test_audio_with sr d f a fs = (Inr (), write_bytes output_path bs fs')"
  using assms by (simp add: create_48k_test_audio_with_def)

lemma files_after_open_write:
  "open_wb path fs = Inr fs' \<Longrightarrow> files (write_bytes path bs fs') path = Some bs"
  by (auto simp add: open_wb_def write_bytes_def split: if_splits)

lemma wav_data_48k_eq:
  "wav_data_48k = Inr (wav_header 48000 48000 @
      concat (map (le_bytes 2) (map (sample_at 48000 440 (3 / 10)) (py_range 48000))))"
  using wav_data_of_Inr [of 48000 1 "3 / 10" 440]
  by (simp add: wav_data_48k_def num_samples_48k)

text \<open>
  Claim C2. With the parameters of the source (sample rate 48000, duration 1.0,
  frequency 440, amplitude 0.3) the function produces a byte sequence of exactly
  44 + 48000 * 2 = 96044 bytes, in which bytes 24-27 decode as a little-endian unsigned
  integer to 48000 and bytes 34-35 to 16. Run where the directory exists and the path
  may be written, the function returns and the file holds these bytes.
\<close>

theorem scenario_48k:
  "\<exists>bs. wav_data_48k = Inr bs \<and> length bs = 96044 \<and>
        le_decode (field 24 4 bs) = 48000 \<and> le_decode (field 34 2 bs) = 16 \<and>
        fst (create_48k_test_audio ready_fs) = Inr () \<and>
        files (snd (create_48k_test_audio ready_fs)) output_path = Some bs"
proof -
  let ?bs = "wav_header 48000 48000 @
      concat (map (le_bytes 2) (map (sample_at 48000 440 (3 / 10)) (py_range 48000)))"
  have wav: "wav_data_48k = Inr ?bs" by (rule wav_data_48k_eq)
  have len: "length ?bs = 96044"
    by (simp only: length_append length_wav_header length_concat_le_bytes length_map
        length_py_range)
  have f24: "le_decode (field 24 4 ?bs) = 48000"
    unfolding field_header by (simp add: le_decode_le_bytes)
  have f34: "le_decode (field 34 2 ?bs) = 16"
    unfolding field_header by (simp add: le_decode_le_bytes)
  have run: "create_48k_test_audio ready_fs
      = (Inr (), write_bytes output_path ?bs
           (ready_fs\<lparr>files := (files ready_fs)(output_path \<mapsto> [])\<rparr>))"
    unfolding create_48k_test_audio_def
    using wav open_wb_ready by (intro create_with_written) (simp_all add: wav_data_48k_def)
  have written: "files (snd (create_48k_test_audio ready_fs)) output_path = Some ?bs"
    unfolding run using open_wb_ready by (simp add: files_after_open_write)
  show ?thesis
    using wav len f24 f34 run written by (intro exI [of _ ?bs]) simp
qed


subsection \<open>C3: the number of samples\<close>


text \<open>
  Claim C3, as amended. For all positive sample rates and positive durations, whenever the
  generator returns a buffer its length is \<^verbatim>\<open>int(sample_rate * duration)\<close>: the binary64
  product of the two, truncated to an integer (its floor, since the product is not
  negative), not rounded to the nearest integer. The generator does return a buffer when
  sample rate and duration are at most 2147483648, their product is at most 16777216,
  the frequency is at most 2147483648 in absolute value, the amplitude at most 1 in
  absolute value and the platform's sine stays within [-1, 1].
\<close>

theorem sample_count:
  assumes "0 < sample_rate" and "0 < duration"
  shows "(\<forall>samples.
            generate_samples_binary64 msin sample_rate duration frequency amplitude = Inr samples \<longrightarrow>
            length samples = nat \<lfloor>binary64 (binary64 (real_of_int sample_rate) * duration)\<rfloor>) \<and>
         (sample_rate \<le> 2147483648 \<and> duration \<le> 2147483648 \<and>
          real_of_int sample_rate * duration \<le> 16777216 \<and> \<bar>frequency\<bar> \<le> 2147483648 \<and>
          \<bar>amplitude\<bar> \<le> 1 \<and> (\<forall>x. \<bar>msin x\<bar> \<le> 1) \<longrightarrow>
            (\<exists>samples.
               generate_samples_binary64 msin sample_rate duration frequency amplitude = Inr samples))"
proof (intro conjI allI impI)
  fix samples
  assume "generate_samples_binary64 msin sample_rate duration frequency amplitude = Inr samples"
  from generate_samples_binary64_Inr [OF this] obtain n where
    "num_samples_binary64 sample_rate duration = Inr n" "length samples = nat n" by blast
  with num_samples_binary64_floor [OF assms]
  show "length samples = nat \<lfloor>binary64 (binary64 (real_of_int sample_rate) * duration)\<rfloor>"
    by simp
next
  assume "sample_rate \<le> 2147483648 \<and> duration \<le> 2147483648 \<and>
          real_of_int sample_rate * duration \<le> 16777216 \<and> \<bar>frequency\<bar> \<le> 2147483648 \<and>
          \<bar>amplitude\<bar> \<le> 1 \<and> (\<forall>x. \<bar>msin x\<bar> \<le> 1)"
  with assms show "\<exists>samples.
      generate_samples_binary64 msin sample_rate duration frequency amplitude = Inr samples"
    by (intro generate_samples_binary64_returns) simp_all
qed

text \<open>The theorem at the parameters of the source: 48000 samples.\<close>

theorem sample_count_witness:
  "(0::int) < 48000 \<and> (0::real) < 1 \<and>
   (\<exists>samples. generate_samples_binary64 sin 48000 1 440 (3 / 10) = Inr samples \<and>
      length samples = 48000)"
proof -
  note t = sample_count [of 48000 1 sin 440 "3 / 10"]
  from t have "\<exists>samples. generate_samples_binary64 sin 48000 1 440 (3 / 10) = Inr samples"
    by simp
  then obtain samples where
    g: "generate_samples_binary64 sin 48000 1 440 (3 / 10) = Inr samples" by auto
  have "length samples = nat \<lfloor>binary64 (binary64 (real_of_int 48000) * 1)\<rfloor>"
    using t g by simp
  then have "length samples = 48000" by (simp add: binary64_48000)
  with g show ?thesis by simp
qed

text \<open>
  The claim as it was stated, with the length \<open>round (sample_rate * duration)\<close>, fails: at
  48000 Hz and a duration of 1/512 seconds the product is 93.75 (exact in binary64), the
  buffer has 93 samples and the rounded product is 94.
\<close>

theorem sample_count_counterexample:
  "map_sum id length (generate_samples_binary64 sin 48000 (1 / 512) 440 (3 / 10)) = Inr 93 \<and>
   round (real_of_int 48000 * (1 / 512)) = 94"
proof -
  from generate_48k_binary64_returns [of "1 / 512"] obtain samples where
    g: "generate_samples_binary64 sin 48000 (1 / 512) 440 (3 / 10) = Inr samples" by auto
  from generate_samples_binary64_Inr [OF g] obtain n where
    "num_samples_binary64 48000 (1 / 512) = Inr n" "length samples = nat n" by blast
  then have "length samples = 93" by (simp add: num_samples_binary64_512)
  moreover have "round (real_of_int 48000 * (1 / 512)) = 94"
    by (simp add: round_def)
  ultimately show ?thesis using g by simp
qed

subsection \<open>C4: the quantisation of a sample\<close>










subsection \<open>C5: the amplitude bound\<close>




subsection \<open>C8: every sample fits the format\<close>



subsection \<open>C9: the period of the tone\<close>




subsection \<open>C6: parameters outside the data model\<close>

lemma create_with_env:
  "create_48k_test_audio_with sr d f a fs
     = create_48k_test_audio_env fs_open fs_write fs_print sr d f a fs"
  by (simp add: create_48k_test_audio_with_def create_48k_test_audio_env_def fs_open_def
      fs_write_def fs_print_def split: sum.splits)






subsection \<open>C7: the file write\<close>

lemma wav_data_48k_literal:
  "wav_data_of 48000 1 440 (3 / 10) = Inr (wav_header 48000 48000 @
      concat (map (le_bytes 2) (map (sample_at 48000 440 (3 / 10)) (py_range 48000))))"
  using wav_data_48k_eq by (simp add: wav_data_48k_def)

lemma dirname_output_path: "dirname output_path = ''debug-audio''"
  by (simp add: dirname_def output_path_def)

lemma open_wb_IOError:
  "''debug-audio'' \<notin> dirs fs \<or> output_path \<in> denied fs \<Longrightarrow>
   \<exists>e. open_wb output_path fs = Inl e \<and> is_IOError e"
  by (auto simp add: open_wb_def is_IOError_def dirname_output_path)

lemma fs_open_fresh: "fs_open output_path fresh_fs = (Inl FileNotFoundError, fresh_fs)"
  by (simp add: fs_open_def open_wb_def fresh_fs_def output_path_def dirname_def)

text \<open>
  Claim C7, as amended. The function creates no directory: the first operation it
  performs on its environment is \<^verbatim>\<open>open\<close> on the fixed output path. With the parameters
  of the source the bytes are generated without an exception, so the function fails
  exactly when \<^verbatim>\<open>open\<close>, the write or the prints raise, and with that error: whenever
  \<^verbatim>\<open>open\<close> raises, the function fails with the same error and leaves the environment as
  \<^verbatim>\<open>open\<close> left it, for every behaviour of \<^verbatim>\<open>open\<close>, of the write and of the prints. On
  the file system of this theory, it fails with an \<^verbatim>\<open>IOError\<close> and leaves the file system
  unchanged when the directory \<^verbatim>\<open>debug-audio\<close> does not exist or the output path may not
  be written.
\<close>

theorem write_failure:
  "(\<exists>bs. wav_data_48k = Inr bs \<and>
      create_48k_test_audio_env open_env write_env print_env 48000 1.0 440 0.3 w
        = (case open_env output_path w of
             (Inl e, w1) \<Rightarrow> (Inl e, w1)
           | (Inr u, w1) \<Rightarrow>
               (case write_env output_path bs w1 of
                  (Inl e, w2) \<Rightarrow> (Inl e, w2)
                | (Inr u, w2) \<Rightarrow> print_env w2))) \<and>
   (fst (open_env output_path w) = Inl e \<longrightarrow>
      create_48k_test_audio_env open_env write_env print_env 48000 1.0 440 0.3 w
        = open_env output_path w) \<and>
   (''debug-audio'' \<notin> dirs fs \<or> output_path \<in> denied fs \<longrightarrow>
      (\<exists>e. create_48k_test_audio fs = (Inl e, fs) \<and> is_IOError e))"
proof (intro conjI impI)
  show "\<exists>bs. wav_data_48k = Inr bs \<and>
      create_48k_test_audio_env open_env write_env print_env 48000 1.0 440 0.3 w
        = (case open_env output_path w of
             (Inl e, w1) \<Rightarrow> (Inl e, w1)
           | (Inr u, w1) \<Rightarrow>
               (case write_env output_path bs w1 of
                  (Inl e, w2) \<Rightarrow> (Inl e, w2)
                | (Inr u, w2) \<Rightarrow> print_env w2))"
  proof -
    let ?bs = "wav_header 48000 48000 @
      concat (map (le_bytes 2) (map (sample_at 48000 440 (3 / 10)) (py_range 48000)))"
    have lit: "wav_data_of 48000 1.0 440 0.3 = Inr ?bs"
      using wav_data_48k_literal by simp
    have "create_48k_test_audio_env open_env write_env print_env 48000 1.0 440 0.3 w
        = (case open_env output_path w of
             (Inl e, w1) \<Rightarrow> (Inl e, w1)
           | (Inr u, w1) \<Rightarrow>
               (case write_env output_path ?bs w1 of
                  (Inl e, w2) \<Rightarrow> (Inl e, w2)
                | (Inr u, w2) \<Rightarrow> print_env w2))"
      by (simp only: create_48k_test_audio_env_def lit sum.case)
    with wav_data_48k_eq show ?thesis by blast
  qed
next
  assume "fst (open_env output_path w) = Inl e"
  then show "create_48k_test_audio_env open_env write_env print_env 48000 1.0 440 0.3 w
        = open_env output_path w"
    by (cases "open_env output_path w")
       (simp add: create_48k_test_audio_env_def wav_data_48k_literal)
next
  assume "''debug-audio'' \<notin> dirs fs \<or> output_path \<in> denied fs"
  from open_wb_IOError [OF this] obtain e where "open_wb output_path fs = Inl e" "is_IOError e"
    by blast
  then show "\<exists>e. create_48k_test_audio fs = (Inl e, fs) \<and> is_IOError e"
    by (simp add: create_48k_test_audio_def create_48k_test_audio_with_def
        wav_data_48k_literal)
qed

text \<open>The theorem on the file system in which \<^verbatim>\<open>debug-audio\<close> does not exist.\<close>

theorem write_failure_witness:
  "fst (fs_open output_path fresh_fs) = Inl FileNotFoundError \<and>
   create_48k_test_audio_env fs_open fs_write fs_print 48000 1.0 440 0.3 fresh_fs
     = (Inl FileNotFoundError, fresh_fs) \<and>
   ''debug-audio'' \<notin> dirs fresh_fs \<and>
   (\<exists>e. create_48k_test_audio fresh_fs = (Inl e, fresh_fs) \<and> is_IOError e)"
proof -
  have h: "fst (fs_open output_path fresh_fs) = Inl FileNotFoundError"
    by (simp add: fs_open_fresh)
  have d: "''debug-audio'' \<notin> dirs fresh_fs" by (simp add: fresh_fs_def)
  note w = write_failure [of fs_open fs_write fs_print fresh_fs FileNotFoundError fresh_fs]
  from w h have "create_48k_test_audio_env fs_open fs_write fs_print 48000 1.0 440 0.3 fresh_fs
     = fs_open output_path fresh_fs" by blast
  moreover from w d have "\<exists>e. create_48k_test_audio fresh_fs = (Inl e, fresh_fs) \<and> is_IOError e"
    by blast
  ultimately show ?thesis using h d by (simp add: fs_open_fresh)
qed

text \<open>
  The claim as it was stated, that parent directories are created as needed, fails: where
  \<^verbatim>\<open>debug-audio\<close> does not exist and no path is denied, the function raises
  \<^verbatim>\<open>FileNotFoundError\<close> and creates neither the directory nor the file.
\<close>

theorem write_failure_counterexample:
  "create_48k_test_audio fresh_fs = (Inl FileNotFoundError, fresh_fs)"
  using fs_open_fresh
  by (simp add: create_48k_test_audio_def create_with_env create_48k_test_audio_env_def
      wav_data_48k_literal)

end
